theory Spec2Isabelle
  imports Main "HOL-Library.Multiset"
begin

section \<open>Messaging core of backend/app.js\<close>

text \<open>
  The messaging part of the single-file Node backend: the JWT middleware of the HTTP
  routes, the two message routes, the Socket.IO handshake middleware and the
  \<^verbatim>\<open>sendMessage\<close> event handler.

  User identifiers, message identifiers, tokens and room names are JavaScript strings;
  a field that may be \<^verbatim>\<open>undefined\<close> is an \<open>option\<close>. The libraries the file calls
  are not part of it and enter the model as follows.
  \<^item> \<^verbatim>\<open>jwt.verify(token, JWT_SECRET)\<close> is a parameter \<open>V\<close>: \<open>V t = None\<close> when the call
    throws (malformed, expired or wrongly signed token), \<open>V t = Some u\<close> when it returns a
    payload whose \<^verbatim>\<open>id\<close> is \<open>u\<close>.
  \<^item> The \<^verbatim>\<open>Message\<close> collection is the list of saved documents in insertion order.
    \<^verbatim>\<open>new Message(...)\<close> takes its \<^verbatim>\<open>_id\<close> and its \<^verbatim>\<open>createdAt\<close> default
    (\<^verbatim>\<open>Date.now\<close>) from the environment of the call; whether \<^verbatim>\<open>save()\<close> and
    \<^verbatim>\<open>find()\<close> succeed is an input of the call as well.
  \<^item> \<^verbatim>\<open>MessageSchema\<close> types \<^verbatim>\<open>sender\<close> and \<^verbatim>\<open>receiver\<close> as \<^verbatim>\<open>ObjectId\<close>, so
    Mongoose casts what the handlers put there, in a new document and in a query filter
    alike. The cast is a parameter \<open>C\<close>: \<open>C s = None\<close> when the string \<open>s\<close> is no
    \<^verbatim>\<open>ObjectId\<close> and the cast fails, \<open>C s = Some c\<close> when it succeeds and \<open>c\<close> is what
    \<^verbatim>\<open>String\<close> gives for the resulting \<^verbatim>\<open>ObjectId\<close> (24 hexadecimal digits in lower
    case). A document that holds a failed cast is rejected by \<^verbatim>\<open>save()\<close>; a filter that
    holds one makes \<^verbatim>\<open>find()\<close> throw.
  \<^item> \<^verbatim>\<open>sort({ createdAt: 1 })\<close> is a stable ascending sort of the matching documents.
  \<^item> Socket.IO rooms are the rooms the file joins with \<^verbatim>\<open>socket.join\<close>;
    \<^verbatim>\<open>io.to(room).emit('message', m)\<close> reaches every connected socket in \<open>room\<close>.
\<close>

subsection \<open>Data\<close>

text \<open>\<^verbatim>\<open>MessageSchema\<close>; the field \<^verbatim>\<open>text\<close> is named \<open>msg_text\<close>.\<close>

record message =
  mid :: string
  sender :: "string option"
  receiver :: "string option"
  msg_text :: "string option"
  media_url :: "string option"
  createdAt :: nat

text \<open>A connected socket: its id, \<^verbatim>\<open>socket.userId\<close> and the rooms it was joined to.\<close>

record socket =
  sid :: string
  userId :: "string option"
  rooms :: "string list"

record server =
  db :: "message list"
  sockets :: "socket list"

text \<open>What one call reads from outside: the fresh \<^verbatim>\<open>_id\<close>, the clock, the store's health.\<close>

record env =
  new_id :: string
  now :: nat
  db_ok :: bool

text \<open>The body of \<^verbatim>\<open>POST /messages\<close> and the payload of \<^verbatim>\<open>sendMessage\<close>.\<close>

record post_body =
  receiverId :: "string option"
  body_text :: "string option"
  body_media_url :: "string option"

record payload =
  p_from :: "string option"
  p_to :: "string option"
  p_text :: "string option"
  p_media_url :: "string option"

datatype body = ErrorBody string | MessageBody message | MessagesBody "message list"

text \<open>
  How a handler ends: it wrote a response (\<^verbatim>\<open>res.status(n).json(b)\<close>), it finished
  without one (a socket event handler), or an \<^verbatim>\<open>await\<close> threw and nothing caught it.
\<close>

datatype completion = Responded nat body | Settled | Rejected

record result =
  outcome :: completion
  state :: server
  pushed :: "(string \<times> message) list"

datatype handshake = Accepted socket | Refused string

subsection \<open>JavaScript primitives\<close>

text \<open>Truthiness of a string or \<^verbatim>\<open>undefined\<close>: the empty string is falsy.\<close>

fun truthy :: "string option \<Rightarrow> bool" where
  "truthy None = False"
| "truthy (Some s) = (s \<noteq> [])"

fun js_String :: "string option \<Rightarrow> string" where
  "js_String None = ''undefined''"
| "js_String (Some s) = s"

text \<open>\<^verbatim>\<open>a || b\<close>\<close>

definition js_or :: "string option \<Rightarrow> string option \<Rightarrow> string option" where
  "js_or a b = (if truthy a then a else b)"

text \<open>\<^verbatim>\<open>s.split(c)\<close> for a one-character separator.\<close>

fun split_on :: "char \<Rightarrow> string \<Rightarrow> string list" where
  "split_on c [] = [[]]"
| "split_on c (x # xs) =
     (if x = c then [] # split_on c xs
      else (case split_on c xs of
              [] \<Rightarrow> [[x]]
            | w # ws \<Rightarrow> (x # w) # ws))"

subsection \<open>Mongoose documents\<close>

text \<open>
  The cast of a value put in an \<^verbatim>\<open>ObjectId\<close> field: \<^verbatim>\<open>undefined\<close> leaves the field
  absent and is no error; a string goes through the cast \<open>C\<close>. The outer \<open>None\<close> is the
  failed cast.
\<close>

definition castField :: "(string \<Rightarrow> string option) \<Rightarrow> string option \<Rightarrow> string option option" where
  "castField C v =
     (case v of
        None \<Rightarrow> Some None
      | Some s \<Rightarrow> (case C s of None \<Rightarrow> None | Some c \<Rightarrow> Some (Some c)))"

text \<open>
  \<^verbatim>\<open>new Message({ sender, receiver, text, media_url })\<close>: the document with its fresh
  \<^verbatim>\<open>_id\<close> and its \<^verbatim>\<open>createdAt\<close> default, or \<open>None\<close> when a cast failed, in which
  case \<^verbatim>\<open>save()\<close> rejects.
\<close>

definition new_Message ::
  "(string \<Rightarrow> string option) \<Rightarrow> env \<Rightarrow> string option \<Rightarrow> string option \<Rightarrow> string option
    \<Rightarrow> string option \<Rightarrow> message option" where
  "new_Message C e sndr rcvr txt url =
     (case castField C sndr of
        None \<Rightarrow> None
      | Some s \<Rightarrow>
          (case castField C rcvr of
             None \<Rightarrow> None
           | Some r \<Rightarrow> Some \<lparr>mid = new_id e, sender = s, receiver = r, msg_text = txt,
                             media_url = url, createdAt = now e\<rparr>))"

subsection \<open>JWT middleware\<close>

text \<open>
  \<^verbatim>\<open>authMiddleware\<close>: \<open>Inl\<close> is the 401 response it writes, \<open>Inr u\<close> is \<^verbatim>\<open>req.userId = u\<close>
  followed by \<^verbatim>\<open>next()\<close>.
\<close>

definition authMiddleware :: "(string \<Rightarrow> string option) \<Rightarrow> string option \<Rightarrow> completion + string" where
  "authMiddleware V header =
     (if \<not> truthy header then Inl (Responded 401 (ErrorBody ''No auth header''))
      else (case split_on CHR '' '' (js_String header) of
              _ # token # _ \<Rightarrow>
                (if token = [] then Inl (Responded 401 (ErrorBody ''Invalid auth header''))
                 else (case V token of
                         None \<Rightarrow> Inl (Responded 401 (ErrorBody ''Invalid token''))
                       | Some u \<Rightarrow> Inr u))
            | _ \<Rightarrow> Inl (Responded 401 (ErrorBody ''Invalid auth header''))))"

subsection \<open>Socket.IO\<close>

text \<open>\<^verbatim>\<open>io.to(room).emit('message', m)\<close>: one push per connected socket in the room.\<close>

definition emit_to :: "string \<Rightarrow> message \<Rightarrow> socket list \<Rightarrow> (string \<times> message) list" where
  "emit_to room m socks = map (\<lambda>s. (sid s, m)) (filter (\<lambda>s. room \<in> set (rooms s)) socks)"

text \<open>
  \<^verbatim>\<open>io.use\<close>: every branch ends in \<^verbatim>\<open>next()\<close> without an error, so no handshake is
  refused; \<^verbatim>\<open>socket.userId\<close> is set only when the token verifies.
\<close>

definition io_use :: "(string \<Rightarrow> string option) \<Rightarrow> string \<Rightarrow> string option \<Rightarrow> handshake" where
  "io_use V cid token =
     (if \<not> truthy token then Accepted \<lparr>sid = cid, userId = None, rooms = []\<rparr>
      else (case V (js_String token) of
              Some u \<Rightarrow> Accepted \<lparr>sid = cid, userId = Some u, rooms = []\<rparr>
            | None \<Rightarrow> Accepted \<lparr>sid = cid, userId = None, rooms = []\<rparr>))"

text \<open>The first line of the \<^verbatim>\<open>connection\<close> handler.\<close>

definition on_connection :: "socket \<Rightarrow> socket" where
  "on_connection s =
     (if truthy (userId s) then s\<lparr>rooms := rooms s @ [js_String (userId s)]\<rparr> else s)"

text \<open>A connection attempt: the middleware, then the \<^verbatim>\<open>connection\<close> handler.\<close>

definition connect :: "(string \<Rightarrow> string option) \<Rightarrow> server \<Rightarrow> string \<Rightarrow> string option \<Rightarrow> server" where
  "connect V st cid token =
     (case io_use V cid token of
        Accepted s \<Rightarrow> st\<lparr>sockets := sockets st @ [on_connection s]\<rparr>
      | Refused e \<Rightarrow> st)"

text \<open>
  The \<^verbatim>\<open>disconnect\<close> handler is empty; the connection leaves the connected sockets.
\<close>

definition disconnect :: "server \<Rightarrow> string \<Rightarrow> server" where
  "disconnect st cid = st\<lparr>sockets := filter (\<lambda>s. sid s \<noteq> cid) (sockets st)\<rparr>"

text \<open>
  \<^verbatim>\<open>socket.on('sendMessage', ...)\<close> on the socket \<open>s\<close>. The first emit names the room
  by \<^verbatim>\<open>payload.to\<close> as written, the second by the sender of the saved document.
\<close>

definition on_sendMessage ::
  "(string \<Rightarrow> string option) \<Rightarrow> env \<Rightarrow> server \<Rightarrow> socket \<Rightarrow> payload \<Rightarrow> result" where
  "on_sendMessage C e st s p =
     (case new_Message C e (js_or (userId s) (p_from p)) (p_to p) (p_text p) (p_media_url p) of
        None \<Rightarrow> \<lparr>outcome = Rejected, state = st, pushed = []\<rparr>
      | Some message \<Rightarrow>
          (if \<not> db_ok e then \<lparr>outcome = Rejected, state = st, pushed = []\<rparr>
           else \<lparr>outcome = Settled,
                 state = st\<lparr>db := db st @ [message]\<rparr>,
                 pushed = emit_to (js_String (p_to p)) message (sockets st)
                          @ emit_to (js_String (sender message)) message (sockets st)\<rparr>))"

subsection \<open>Message routes\<close>

text \<open>
  \<^verbatim>\<open>app.post('/messages', authMiddleware, ...)\<close>. The route answers with the saved
  document (\<^verbatim>\<open>res.json(msg)\<close>, status 200). The object it emits takes \<^verbatim>\<open>_id\<close> and
  \<^verbatim>\<open>createdAt\<close> from the document and the other fields from the request as written,
  and the room is named by \<^verbatim>\<open>receiverId\<close> as written.
\<close>

definition post_messages ::
  "(string \<Rightarrow> string option) \<Rightarrow> (string \<Rightarrow> string option) \<Rightarrow> env \<Rightarrow> server \<Rightarrow> string option
    \<Rightarrow> post_body \<Rightarrow> result" where
  "post_messages V C e st header b =
     (case authMiddleware V header of
        Inl r \<Rightarrow> \<lparr>outcome = r, state = st, pushed = []\<rparr>
      | Inr uid \<Rightarrow>
          (case new_Message C e (Some uid) (receiverId b) (body_text b) (body_media_url b) of
             None \<Rightarrow> \<lparr>outcome = Rejected, state = st, pushed = []\<rparr>
           | Some msg \<Rightarrow>
               (if \<not> db_ok e then \<lparr>outcome = Rejected, state = st, pushed = []\<rparr>
                else \<lparr>outcome = Responded 200 (MessageBody msg),
                      state = st\<lparr>db := db st @ [msg]\<rparr>,
                      pushed = emit_to (js_String (receiverId b))
                                 \<lparr>mid = mid msg, sender = Some uid, receiver = receiverId b,
                                  msg_text = body_text b, media_url = body_media_url b,
                                  createdAt = createdAt msg\<rparr> (sockets st)\<rparr>)))"

text \<open>
  The filter of \<^verbatim>\<open>Message.find({ $or: [...] })\<close> once its values are cast: \<open>uid\<close> is the
  \<^verbatim>\<open>ObjectId\<close> of the caller and \<open>other\<close> that of the path parameter.
\<close>

definition matches :: "string \<Rightarrow> string \<Rightarrow> message \<Rightarrow> bool" where
  "matches uid other m \<longleftrightarrow>
     (sender m = Some uid \<and> receiver m = Some other) \<or>
     (sender m = Some other \<and> receiver m = Some uid)"

text \<open>\<^verbatim>\<open>Message.find(...).sort({ createdAt: 1 }).limit(1000)\<close> on the cast filter.\<close>

definition find_messages :: "message list \<Rightarrow> string \<Rightarrow> string \<Rightarrow> message list" where
  "find_messages ms uid other = take 1000 (sort_key createdAt (filter (matches uid other) ms))"

text \<open>
  \<^verbatim>\<open>app.get('/messages/:userId', authMiddleware, ...)\<close>: the query casts
  \<^verbatim>\<open>req.userId\<close> and the path parameter and throws when either cast fails; nothing
  catches it.
\<close>

definition get_messages ::
  "(string \<Rightarrow> string option) \<Rightarrow> (string \<Rightarrow> string option) \<Rightarrow> env \<Rightarrow> server \<Rightarrow> string option
    \<Rightarrow> string \<Rightarrow> result" where
  "get_messages V C e st header other =
     (case authMiddleware V header of
        Inl r \<Rightarrow> \<lparr>outcome = r, state = st, pushed = []\<rparr>
      | Inr uid \<Rightarrow>
          (case C uid of
             None \<Rightarrow> \<lparr>outcome = Rejected, state = st, pushed = []\<rparr>
           | Some u \<Rightarrow>
               (case C other of
                  None \<Rightarrow> \<lparr>outcome = Rejected, state = st, pushed = []\<rparr>
                | Some ot \<Rightarrow>
                    (if \<not> db_ok e then \<lparr>outcome = Rejected, state = st, pushed = []\<rparr>
                     else \<lparr>outcome = Responded 200 (MessagesBody (find_messages (db st) u ot)),
                           state = st, pushed = []\<rparr>))))"

subsection \<open>The specification's vocabulary\<close>

text \<open>
  \<open>range(userA, userB, limit)\<close> in the specification's words: the messages whose unordered
  participant pair is \<open>{userA, userB}\<close>, ascending by creation time, truncated to \<open>limit\<close>.
\<close>

definition range_spec :: "message list \<Rightarrow> string \<Rightarrow> string \<Rightarrow> nat \<Rightarrow> message list" where
  "range_spec ms userA userB limit =
     take limit (sort_key createdAt
       (filter (\<lambda>m. {sender m, receiver m} = {Some userA, Some userB}) ms))"

text \<open>\<open>sessionsFor(userId)\<close>: the connections registered under the user.\<close>

definition sessionsFor :: "server \<Rightarrow> string \<Rightarrow> string set" where
  "sessionsFor st u = sid ` {s \<in> set (sockets st). userId s = Some u \<and> u \<noteq> []}"

text \<open>The states the server reaches from no connection and any store by connection attempts.\<close>

inductive reachable :: "(string \<Rightarrow> string option) \<Rightarrow> server \<Rightarrow> bool" for V where
  start: "reachable V \<lparr>db = ms, sockets = []\<rparr>"
| conn: "reachable V st \<Longrightarrow> reachable V (connect V st cid token)"
| disc: "reachable V st \<Longrightarrow> reachable V (disconnect st cid)"
| stored: "reachable V st \<Longrightarrow> reachable V (st\<lparr>db := ms\<rparr>)"

subsection \<open>Concrete data\<close>

definition alice :: string where "alice = ''64b0000000000000000000a1''"
definition bob :: string where "bob = ''64b0000000000000000000b2''"
definition carol :: string where "carol = ''64b0000000000000000000c3''"

text \<open>The same identifiers written in upper case.\<close>

definition alice_upper :: string where "alice_upper = ''64B0000000000000000000A1''"
definition bob_upper :: string where "bob_upper = ''64B0000000000000000000B2''"

fun hex_digits :: "nat \<Rightarrow> nat \<Rightarrow> string" where
  "hex_digits 0 n = []"
| "hex_digits (Suc k) n = hex_digits k (n div 16) @ [''0123456789abcdef'' ! (n mod 16)]"

definition is_hex :: "char \<Rightarrow> bool" where
  "is_hex c \<longleftrightarrow> c \<in> set ''0123456789abcdefABCDEF''"

definition lower_hex :: "char \<Rightarrow> char" where
  "lower_hex c =
     (if c = CHR ''A'' then CHR ''a'' else if c = CHR ''B'' then CHR ''b''
      else if c = CHR ''C'' then CHR ''c'' else if c = CHR ''D'' then CHR ''d''
      else if c = CHR ''E'' then CHR ''e'' else if c = CHR ''F'' then CHR ''f'' else c)"

text \<open>
  A cast for the examples: a string of 24 hexadecimal digits is an \<^verbatim>\<open>ObjectId\<close> and
  prints in lower case, a string of 12 bytes is the \<^verbatim>\<open>ObjectId\<close> of these bytes, and
  no other string is one.
\<close>

definition C0 :: "string \<Rightarrow> string option" where
  "C0 s =
     (if length s = 24 \<and> list_all is_hex s then Some (map lower_hex s)
      else if length s = 12 then Some (concat (map (\<lambda>c. hex_digits 2 (of_char c)) s))
      else None)"

text \<open>A verifier that accepts exactly the tokens \<open>tok-\<close>\<open>u\<close> and yields \<open>u\<close>.\<close>

definition V0 :: "string \<Rightarrow> string option" where
  "V0 t = (if take 4 t = ''tok-'' then Some (drop 4 t) else None)"

definition bearer :: "string \<Rightarrow> string option" where
  "bearer u = Some (''Bearer tok-'' @ u)"

definition env0 :: env where
  "env0 = \<lparr>new_id = ''64b0000000000000000000f0'', now = 1700000000000, db_ok = True\<rparr>"

definition m1 :: message where
  "m1 = \<lparr>mid = ''64b0000000000000000000e1'', sender = Some alice, receiver = Some bob,
         msg_text = Some ''hi'', media_url = None, createdAt = 1699999999000\<rparr>"

definition m2 :: message where
  "m2 = \<lparr>mid = ''64b0000000000000000000e2'', sender = Some bob, receiver = Some alice,
         msg_text = Some ''yo'', media_url = None, createdAt = 1699999998000\<rparr>"

definition m3 :: message where
  "m3 = \<lparr>mid = ''64b0000000000000000000e3'', sender = Some alice, receiver = Some carol,
         msg_text = Some ''psst'', media_url = None, createdAt = 1699999997000\<rparr>"

text \<open>A store of three messages and no connection.\<close>

definition st0 :: server where
  "st0 = \<lparr>db = [m1, m2, m3], sockets = []\<rparr>"

text \<open>An empty store with two connections: \<open>c1\<close> of alice and \<open>c2\<close> of bob.\<close>

definition st1 :: server where
  "st1 = connect V0 (connect V0 \<lparr>db = [], sockets = []\<rparr> ''c1'' (Some (''tok-'' @ alice)))
           ''c2'' (Some (''tok-'' @ bob))"

definition alice_socket :: socket where
  "alice_socket = \<lparr>sid = ''c1'', userId = Some alice, rooms = [alice]\<rparr>"

definition anon_socket :: socket where
  "anon_socket = \<lparr>sid = ''c9'', userId = None, rooms = []\<rparr>"

definition hello_bob :: post_body where
  "hello_bob = \<lparr>receiverId = Some bob, body_text = Some ''hello'', body_media_url = None\<rparr>"

text \<open>The document \<^verbatim>\<open>new Message(...)\<close> builds in \<open>env0\<close> for alice's \<open>hello\<close> to bob.\<close>

definition sent :: message where
  "sent = \<lparr>mid = new_id env0, sender = Some alice, receiver = Some bob,
           msg_text = Some ''hello'', media_url = None, createdAt = now env0\<rparr>"

text \<open>
  A conversation at the limit of the history fetch: 1000 messages from alice to bob, one
  per millisecond, with 24-digit hexadecimal identifiers, and no connection.
\<close>

definition old :: "nat \<Rightarrow> message" where
  "old i = \<lparr>mid = ''64a00000'' @ hex_digits 16 i, sender = Some alice, receiver = Some bob,
            msg_text = Some ''hi'', media_url = None, createdAt = 1600000000000 + i\<rparr>"

definition olds :: "nat \<Rightarrow> message list" where
  "olds n = map old [0..<n]"

definition big :: server where
  "big = \<lparr>db = olds 1000, sockets = []\<rparr>"

section \<open>Properties\<close>

subsection \<open>The middleware and the cast at concrete inputs\<close>

lemma auth_alice: "authMiddleware V0 (bearer alice) = Inr alice"
  by (simp add: authMiddleware_def V0_def bearer_def alice_def)

lemma auth_bob: "authMiddleware V0 (bearer bob) = Inr bob"
  by (simp add: authMiddleware_def V0_def bearer_def bob_def)

lemma names_distinct: "alice \<noteq> bob" "alice \<noteq> carol" "bob \<noteq> carol" "bob \<noteq> alice"
  "carol \<noteq> alice" "carol \<noteq> bob" "alice \<noteq> []" "bob \<noteq> []"
  by (simp_all add: alice_def bob_def carol_def)

lemma C0_names: "C0 alice = Some alice" "C0 bob = Some bob" "C0 carol = Some carol"
  by (simp_all add: C0_def alice_def bob_def carol_def is_hex_def lower_hex_def)

lemma C0_upper: "C0 alice_upper = Some alice" "C0 bob_upper = Some bob"
  by (simp_all add: C0_def alice_upper_def bob_upper_def alice_def bob_def is_hex_def lower_hex_def)

lemma C0_short: "C0 ''u1'' = None" "C0 ''u2'' = None" "C0 [] = None"
  by (simp_all add: C0_def)

lemma castField_None: "castField C None = Some None"
  by (simp add: castField_def)

lemma castField_Some: "castField C (Some s) = Some x \<longleftrightarrow> (\<exists>c. C s = Some c \<and> x = Some c)"
  by (auto simp: castField_def split: option.splits)

lemma new_Message_ok:
  assumes "castField C sndr = Some s" and "castField C rcvr = Some r"
  shows "new_Message C e sndr rcvr txt url
       = Some \<lparr>mid = new_id e, sender = s, receiver = r, msg_text = txt, media_url = url,
               createdAt = now e\<rparr>"
  using assms by (simp add: new_Message_def)

lemma new_Message_sender_failed:
  assumes "castField C sndr = None"
  shows "new_Message C e sndr rcvr txt url = None"
  using assms by (simp add: new_Message_def)

subsection \<open>History\<close>

lemma matches_sym: "matches a b = matches b a"
  by (rule ext) (auto simp: matches_def)

lemma matches_pair: "matches a b = (\<lambda>m. {sender m, receiver m} = {Some a, Some b})"
  by (rule ext) (auto simp: matches_def doubleton_eq_iff)

lemma find_messages_sym: "find_messages ms a b = find_messages ms b a"
  by (simp add: find_messages_def matches_sym [of a b])

lemma find_messages_range: "find_messages ms a b = range_spec ms a b 1000"
  by (simp add: find_messages_def range_spec_def matches_pair)

lemma sorted_take_sort_key: "sorted (map f (take n (sort_key f xs)))"
proof -
  have "sorted (take n (map f (sort_key f xs)))"
    by (rule sorted_wrt_take) (rule sorted_sort_key)
  then show ?thesis by (simp add: take_map)
qed

lemma find_messages_sorted: "sorted (map createdAt (find_messages ms a b))"
  unfolding find_messages_def by (rule sorted_take_sort_key)

lemma find_messages_length: "length (find_messages ms a b) \<le> 1000"
  by (simp add: find_messages_def)

lemma find_messages_subset: "set (find_messages ms a b) \<subseteq> {m \<in> set ms. matches a b m}"
proof
  fix m assume "m \<in> set (find_messages ms a b)"
  then have "m \<in> set (sort_key createdAt (filter (matches a b) ms))"
    unfolding find_messages_def by (rule in_set_takeD)
  then show "m \<in> {m \<in> set ms. matches a b m}" by simp
qed

lemma find_messages_all:
  assumes "length (filter (matches a b) ms) \<le> 1000"
  shows "mset (find_messages ms a b) = mset (filter (matches a b) ms)"
proof -
  have "length (sort_key createdAt (filter (matches a b) ms)) \<le> 1000"
    using assms by simp
  then have "find_messages ms a b = sort_key createdAt (filter (matches a b) ms)"
    by (simp add: find_messages_def)
  then show ?thesis by simp
qed

lemma get_messages_ok:
  assumes "authMiddleware V header = Inr ua" and "C ua = Some a" and "C ub = Some b"
    and "db_ok e"
  shows "get_messages V C e st header ub =
         \<lparr>outcome = Responded 200 (MessagesBody (find_messages (db st) a b)), state = st, pushed = []\<rparr>"
  using assms by (simp add: get_messages_def)

lemma get_messages_cast_failed:
  assumes "authMiddleware V header = Inr ua" and "C ua = None \<or> C ub = None"
  shows "get_messages V C e st header ub = \<lparr>outcome = Rejected, state = st, pushed = []\<rparr>"
  using assms by (auto simp: get_messages_def split: option.splits)

lemma get_messages_Responded:
  assumes "authMiddleware V header = Inr ua"
    and "outcome (get_messages V C e st header ub) = Responded code (MessagesBody ms)"
  shows "\<exists>a b. C ua = Some a \<and> C ub = Some b \<and> ms = find_messages (db st) a b"
  using assms by (auto simp: get_messages_def split: option.splits if_splits)

text \<open>
  C2 as stated fails: for the path parameter \<open>u2\<close>, which is no \<^verbatim>\<open>ObjectId\<close>, the
  query throws on a healthy store and the caller alice gets no list.
\<close>

theorem get_messages_non_objectid_counterexample:
  "db_ok env0 \<and> authMiddleware V0 (bearer alice) = Inr alice
   \<and> get_messages V0 C0 env0 st0 (bearer alice) ''u2''
       = \<lparr>outcome = Rejected, state = st0, pushed = []\<rparr>"
proof -
  have "get_messages V0 C0 env0 st0 (bearer alice) ''u2''
      = \<lparr>outcome = Rejected, state = st0, pushed = []\<rparr>"
    by (rule get_messages_cast_failed [OF auth_alice]) (simp add: C0_short)
  then show ?thesis by (simp add: env0_def auth_alice)
qed

text \<open>
  C2, amended: when the caller's identifier and the path parameter cast to the
  \<^verbatim>\<open>ObjectId\<close>s \<open>a\<close> and \<open>b\<close> and the store answers the query, the history fetch
  answers with exactly \<open>range(a, b, 1000)\<close>: the stored messages whose unordered
  participant pair is \<open>{a, b}\<close>, ascending by creation time, at most 1000 of them (all of
  them when the pair has no more than 1000).
\<close>

theorem get_messages_is_range:
  assumes "authMiddleware V header = Inr ua" and "C ua = Some a" and "C ub = Some b"
    and "db_ok e"
  shows "outcome (get_messages V C e st header ub)
           = Responded 200 (MessagesBody (range_spec (db st) a b 1000))
       \<and> sorted (map createdAt (range_spec (db st) a b 1000))
       \<and> length (range_spec (db st) a b 1000) \<le> 1000
       \<and> set (range_spec (db st) a b 1000)
           \<subseteq> {m \<in> set (db st). {sender m, receiver m} = {Some a, Some b}}
       \<and> (length (filter (\<lambda>m. {sender m, receiver m} = {Some a, Some b}) (db st)) \<le> 1000
            \<longrightarrow> mset (range_spec (db st) a b 1000)
                 = mset (filter (\<lambda>m. {sender m, receiver m} = {Some a, Some b}) (db st)))"
proof -
  have r: "range_spec (db st) a b 1000 = find_messages (db st) a b"
    by (simp add: find_messages_range)
  have "outcome (get_messages V C e st header ub)
          = Responded 200 (MessagesBody (range_spec (db st) a b 1000))"
    by (simp add: get_messages_ok [OF assms] r)
  moreover have "sorted (map createdAt (range_spec (db st) a b 1000))"
    unfolding r by (rule find_messages_sorted)
  moreover have "length (range_spec (db st) a b 1000) \<le> 1000"
    unfolding r by (rule find_messages_length)
  moreover have "set (range_spec (db st) a b 1000)
      \<subseteq> {m \<in> set (db st). {sender m, receiver m} = {Some a, Some b}}"
    using find_messages_subset [of "db st" a b] unfolding r by (simp add: matches_pair)
  moreover have "length (filter (\<lambda>m. {sender m, receiver m} = {Some a, Some b}) (db st)) \<le> 1000
      \<longrightarrow> mset (range_spec (db st) a b 1000)
          = mset (filter (\<lambda>m. {sender m, receiver m} = {Some a, Some b}) (db st))"
    using find_messages_all [of a b "db st"] unfolding r by (simp add: matches_pair)
  ultimately show ?thesis by blast
qed

theorem get_messages_is_range_witness:
  "authMiddleware V0 (bearer alice) = Inr alice \<and> C0 alice = Some alice
   \<and> C0 bob_upper = Some bob \<and> db_ok env0
   \<and> outcome (get_messages V0 C0 env0 st0 (bearer alice) bob_upper)
       = Responded 200 (MessagesBody [m2, m1])"
proof -
  have e: "db_ok env0" by (simp add: env0_def)
  have "range_spec (db st0) alice bob 1000 = [m2, m1]"
    by (simp add: range_spec_def st0_def m1_def m2_def m3_def doubleton_eq_iff names_distinct)
  then show ?thesis
    using get_messages_is_range [OF auth_alice C0_names(1) C0_upper(2) e, of st0]
      auth_alice C0_names(1) C0_upper(2) e
    by simp
qed

text \<open>
  C6: history is symmetric in the participant pair. The fetch by \<open>a\<close> for \<open>b\<close> and the
  fetch by \<open>b\<close> for \<open>a\<close> give the same answer in every store state.
\<close>

theorem get_messages_symmetric:
  assumes "authMiddleware V ha = Inr a" and "authMiddleware V hb = Inr b"
  shows "outcome (get_messages V C e st ha b) = outcome (get_messages V C e st hb a)
       \<and> find_messages (db st) a b = find_messages (db st) b a
       \<and> range_spec (db st) a b n = range_spec (db st) b a n"
proof -
  have "range_spec (db st) a b n = range_spec (db st) b a n"
    by (simp add: range_spec_def insert_commute)
  moreover have "outcome (get_messages V C e st ha b) = outcome (get_messages V C e st hb a)"
    using assms by (simp add: get_messages_def find_messages_sym split: option.splits)
  ultimately show ?thesis
    by (simp add: find_messages_sym [of "db st" a b])
qed

theorem get_messages_symmetric_witness:
  "outcome (get_messages V0 C0 env0 st0 (bearer alice) bob)
     = outcome (get_messages V0 C0 env0 st0 (bearer bob) alice)
   \<and> outcome (get_messages V0 C0 env0 st0 (bearer bob) alice)
     = Responded 200 (MessagesBody [m2, m1])"
proof -
  have "find_messages (db st0) bob alice = [m2, m1]"
    by (simp add: find_messages_def matches_def st0_def m1_def m2_def m3_def names_distinct)
  then show ?thesis
    using get_messages_symmetric [OF auth_alice auth_bob, of C0 env0 st0]
    by (simp add: get_messages_ok [OF auth_bob C0_names(2) C0_names(1)] env0_def)
qed

text \<open>
  C10: every message a history fetch returns has the authenticated caller (the
  \<^verbatim>\<open>ObjectId\<close> the caller's identifier casts to) as its sender or as its receiver,
  whatever the path parameter.
\<close>

theorem get_messages_only_own:
  assumes "authMiddleware V header = Inr ua"
    and "outcome (get_messages V C e st header other) = Responded code (MessagesBody ms)"
    and "m \<in> set ms"
  shows "C ua \<noteq> None \<and> (sender m = C ua \<or> receiver m = C ua)"
proof -
  obtain a b where ab: "C ua = Some a" "ms = find_messages (db st) a b"
    using get_messages_Responded [OF assms(1,2)] by blast
  then have "matches a b m"
    using assms(3) find_messages_subset [of "db st" a b] by auto
  then show ?thesis using ab(1) by (auto simp: matches_def)
qed

theorem get_messages_only_own_witness:
  "outcome (get_messages V0 C0 env0 st0 (bearer alice) carol) = Responded 200 (MessagesBody [m3])
   \<and> m3 \<in> set [m3] \<and> C0 alice = Some alice
   \<and> (sender m3 = Some alice \<or> receiver m3 = Some alice)"
proof -
  have "find_messages (db st0) alice carol = [m3]"
    by (simp add: find_messages_def matches_def st0_def m1_def m2_def m3_def names_distinct)
  then have o: "outcome (get_messages V0 C0 env0 st0 (bearer alice) carol)
      = Responded 200 (MessagesBody [m3])"
    by (simp add: get_messages_ok [OF auth_alice C0_names(1) C0_names(3)] env0_def)
  have i: "m3 \<in> set [m3]" by simp
  show ?thesis
    using get_messages_only_own [OF auth_alice o i] o by (simp add: C0_names)
qed
subsection \<open>Connections and rooms\<close>

lemma io_use_accepts: "\<exists>s. io_use V cid token = Accepted s \<and> sid s = cid \<and> rooms s = []"
  by (simp add: io_use_def split: option.split)

lemma on_connection_rooms:
  assumes "rooms s = []"
  shows "rooms (on_connection s)
       = (if truthy (userId (on_connection s)) then [js_String (userId (on_connection s))] else [])"
  using assms by (simp add: on_connection_def)

lemma connect_sockets:
  "\<exists>s. sockets (connect V st cid token) = sockets st @ [s] \<and> db (connect V st cid token) = db st
       \<and> rooms s = (if truthy (userId s) then [js_String (userId s)] else [])"
proof -
  obtain s0 where s0: "io_use V cid token = Accepted s0" "rooms s0 = []"
    using io_use_accepts [of V cid token] by blast
  have "sockets (connect V st cid token) = sockets st @ [on_connection s0]"
    and "db (connect V st cid token) = db st"
    by (simp_all add: connect_def s0(1))
  then show ?thesis using on_connection_rooms [OF s0(2)] by blast
qed

text \<open>
  In every reachable state a socket is in exactly one room, the one named after its user,
  when \<^verbatim>\<open>socket.userId\<close> is truthy, and in none otherwise.
\<close>

lemma reachable_rooms:
  assumes "reachable V st" and "s \<in> set (sockets st)"
  shows "rooms s = (if truthy (userId s) then [js_String (userId s)] else [])"
  using assms
proof (induction arbitrary: s rule: reachable.induct)
  case (start ms)
  then show ?case by simp
next
  case (conn st cid token)
  obtain s' where s': "sockets (connect V st cid token) = sockets st @ [s']"
    "rooms s' = (if truthy (userId s') then [js_String (userId s')] else [])"
    using connect_sockets [of V st cid token] by blast
  from conn.prems s'(1) have "s \<in> set (sockets st) \<or> s = s'" by auto
  then show ?case using conn.IH s'(2) by blast
next
  case (disc st cid)
  then show ?case by (simp add: disconnect_def)
next
  case (stored st ms)
  then show ?case by simp
qed

lemma in_room_iff:
  assumes "rooms s = (if truthy (userId s) then [js_String (userId s)] else [])"
  shows "r \<in> set (rooms s) \<longleftrightarrow> userId s = Some r \<and> r \<noteq> []"
  using assms by (cases "userId s") auto

text \<open>The sockets an emit to the room \<open>r\<close> reaches are the sessions of the user \<open>r\<close>.\<close>

lemma emit_to_sessions:
  assumes "reachable V st"
  shows "fst ` set (emit_to r m (sockets st)) = sessionsFor st r"
proof -
  have "\<And>s. s \<in> set (sockets st) \<Longrightarrow> r \<in> set (rooms s) \<longleftrightarrow> userId s = Some r \<and> r \<noteq> []"
    using reachable_rooms [OF assms] in_room_iff by blast
  then have "{s \<in> set (sockets st). r \<in> set (rooms s)}
           = {s \<in> set (sockets st). userId s = Some r \<and> r \<noteq> []}"
    by blast
  then show ?thesis
    by (simp add: emit_to_def sessionsFor_def image_image)
qed

lemma emit_to_Nil_iff:
  assumes "reachable V st"
  shows "emit_to r m (sockets st) = [] \<longleftrightarrow> sessionsFor st r = {}"
  using emit_to_sessions [OF assms, of r m] by auto

lemma reachable_st1: "reachable V0 st1"
  unfolding st1_def by (intro reachable.conn reachable.start)

lemma st1_eq:
  "st1 = \<lparr>db = [], sockets = [\<lparr>sid = ''c1'', userId = Some alice, rooms = [alice]\<rparr>,
                                \<lparr>sid = ''c2'', userId = Some bob, rooms = [bob]\<rparr>]\<rparr>"
  by (simp add: st1_def connect_def io_use_def on_connection_def V0_def names_distinct)

text \<open>
  C5: a connection attempt whose credential is missing (absent or empty) or fails
  verification (malformed, expired, wrongly signed) is accepted as an anonymous session:
  the socket has no user identity, is joined to no room, and no emit to any room and no
  user's session set ever contains it.
\<close>

theorem bad_credential_connects_anonymous:
  assumes "\<not> truthy token \<or> V (js_String token) = None"
  shows "io_use V cid token = Accepted \<lparr>sid = cid, userId = None, rooms = []\<rparr>
       \<and> on_connection \<lparr>sid = cid, userId = None, rooms = []\<rparr>
           = \<lparr>sid = cid, userId = None, rooms = []\<rparr>
       \<and> sockets (connect V st cid token)
           = sockets st @ [\<lparr>sid = cid, userId = None, rooms = []\<rparr>]
       \<and> emit_to room m (sockets (connect V st cid token)) = emit_to room m (sockets st)
       \<and> sessionsFor (connect V st cid token) u = sessionsFor st u"
proof -
  have a: "io_use V cid token = Accepted \<lparr>sid = cid, userId = None, rooms = []\<rparr>"
    using assms by (auto simp: io_use_def)
  have b: "on_connection \<lparr>sid = cid, userId = None, rooms = []\<rparr>
      = \<lparr>sid = cid, userId = None, rooms = []\<rparr>"
    by (simp add: on_connection_def)
  have c: "sockets (connect V st cid token)
      = sockets st @ [\<lparr>sid = cid, userId = None, rooms = []\<rparr>]"
    by (simp add: connect_def a b)
  have d: "emit_to room m (sockets (connect V st cid token)) = emit_to room m (sockets st)"
    by (simp add: c emit_to_def)
  have e: "sessionsFor (connect V st cid token) u = sessionsFor st u"
    by (auto simp: c sessionsFor_def)
  from a b c d e show ?thesis by blast
qed

theorem bad_credential_connects_anonymous_witness:
  "V0 (js_String (Some ''expired.or.forged'')) = None
   \<and> sockets (connect V0 st1 ''c3'' (Some ''expired.or.forged''))
       = sockets st1 @ [\<lparr>sid = ''c3'', userId = None, rooms = []\<rparr>]
   \<and> sockets (connect V0 st1 ''c4'' None) = sockets st1 @ [\<lparr>sid = ''c4'', userId = None, rooms = []\<rparr>]"
proof -
  have h: "V0 (js_String (Some ''expired.or.forged'')) = None" by (simp add: V0_def)
  show ?thesis
    using bad_credential_connects_anonymous [of "Some ''expired.or.forged''" V0 "''c3''" st1]
      bad_credential_connects_anonymous [of None V0 "''c4''" st1] h
    by simp
qed

subsection \<open>The sendMessage event\<close>

lemma on_sendMessage_ok:
  assumes "castField C (js_or (userId s) (p_from p)) = Some f" and "castField C (p_to p) = Some t"
    and "db_ok e"
  shows "on_sendMessage C e st s p =
    \<lparr>outcome = Settled,
     state = st\<lparr>db := db st @ [\<lparr>mid = new_id e, sender = f, receiver = t,
        msg_text = p_text p, media_url = p_media_url p, createdAt = now e\<rparr>]\<rparr>,
     pushed = emit_to (js_String (p_to p)) \<lparr>mid = new_id e, sender = f, receiver = t,
        msg_text = p_text p, media_url = p_media_url p, createdAt = now e\<rparr> (sockets st)
        @ emit_to (js_String f) \<lparr>mid = new_id e, sender = f, receiver = t,
        msg_text = p_text p, media_url = p_media_url p, createdAt = now e\<rparr> (sockets st)\<rparr>"
  using assms by (simp add: on_sendMessage_def new_Message_def)

lemma on_sendMessage_failed:
  assumes "\<not> db_ok e"
  shows "on_sendMessage C e st s p = \<lparr>outcome = Rejected, state = st, pushed = []\<rparr>"
  using assms by (simp add: on_sendMessage_def split: option.splits)

lemma on_sendMessage_cast_failed:
  assumes "castField C (js_or (userId s) (p_from p)) = None \<or> castField C (p_to p) = None"
  shows "on_sendMessage C e st s p = \<lparr>outcome = Rejected, state = st, pushed = []\<rparr>"
  using assms by (auto simp: on_sendMessage_def new_Message_def split: option.splits)

text \<open>
  The event pushes to the sessions registered under the receiver as written and under the
  sender of the saved document.
\<close>

lemma on_sendMessage_fanout:
  assumes "reachable V st" and "db_ok e"
    and "castField C (js_or (userId s) (p_from p)) = Some f" and "castField C (p_to p) = Some t"
  shows "fst ` set (pushed (on_sendMessage C e st s p))
       = sessionsFor st (js_String (p_to p)) \<union> sessionsFor st (js_String f)"
  by (simp add: on_sendMessage_ok [OF assms(3,4,2)] image_Un emit_to_sessions [OF assms(1)])

text \<open>
  C4 as stated fails: on a healthy store, a \<^verbatim>\<open>sendMessage\<close> event on an anonymous
  connection whose payload states the sender \<open>u1\<close>, which is no \<^verbatim>\<open>ObjectId\<close>, is not
  persisted and not pushed.
\<close>

theorem anonymous_send_non_objectid_counterexample:
  "\<not> truthy (userId anon_socket) \<and> db_ok env0
   \<and> on_sendMessage C0 env0 st1 anon_socket
        \<lparr>p_from = Some ''u1'', p_to = Some bob, p_text = Some ''hello'', p_media_url = None\<rparr>
     = \<lparr>outcome = Rejected, state = st1, pushed = []\<rparr>"
proof -
  have "on_sendMessage C0 env0 st1 anon_socket
        \<lparr>p_from = Some ''u1'', p_to = Some bob, p_text = Some ''hello'', p_media_url = None\<rparr>
     = \<lparr>outcome = Rejected, state = st1, pushed = []\<rparr>"
    by (rule on_sendMessage_cast_failed)
      (simp add: castField_def js_or_def anon_socket_def C0_short)
  then show ?thesis by (simp add: anon_socket_def env0_def)
qed

text \<open>
  C4, amended: a \<^verbatim>\<open>sendMessage\<close> event on an anonymous connection whose \<^verbatim>\<open>from\<close> and
  \<^verbatim>\<open>to\<close> are each absent or cast to an \<^verbatim>\<open>ObjectId\<close>, and whose save the store
  accepts, is accepted, and the message it persists has as its sender what the payload's
  \<^verbatim>\<open>from\<close> casts to: the \<^verbatim>\<open>ObjectId\<close> it denotes, or nothing when it is absent.
\<close>

theorem anonymous_send_uses_payload_from:
  assumes "\<not> truthy (userId s)" and "castField C (p_from p) = Some f"
    and "castField C (p_to p) = Some t" and "db_ok e"
  shows "outcome (on_sendMessage C e st s p) = Settled
       \<and> db (state (on_sendMessage C e st s p))
           = db st @ [\<lparr>mid = new_id e, sender = f, receiver = t,
                       msg_text = p_text p, media_url = p_media_url p, createdAt = now e\<rparr>]"
proof -
  have "castField C (js_or (userId s) (p_from p)) = Some f"
    using assms(1,2) by (simp add: js_or_def)
  then show ?thesis
    by (simp add: on_sendMessage_ok [OF _ assms(3,4)])
qed

theorem anonymous_send_uses_payload_from_witness:
  "\<not> truthy (userId anon_socket) \<and> castField C0 (Some alice_upper) = Some (Some alice)
   \<and> castField C0 (Some bob) = Some (Some bob) \<and> db_ok env0
   \<and> db (state (on_sendMessage C0 env0 st1 anon_socket
        \<lparr>p_from = Some alice_upper, p_to = Some bob, p_text = Some ''hello'', p_media_url = None\<rparr>))
     = [sent]"
proof -
  let ?p = "\<lparr>p_from = Some alice_upper, p_to = Some bob, p_text = Some ''hello'',
             p_media_url = None\<rparr>"
  have a: "\<not> truthy (userId anon_socket)" by (simp add: anon_socket_def)
  have f: "castField C0 (p_from ?p) = Some (Some alice)"
    by (simp add: castField_def C0_upper)
  have t: "castField C0 (p_to ?p) = Some (Some bob)"
    by (simp add: castField_def C0_names)
  have e: "db_ok env0" by (simp add: env0_def)
  show ?thesis
    using anonymous_send_uses_payload_from [OF a f t e, of st1] a f t e
    by (simp add: sent_def st1_eq)
qed

text \<open>
  C9: on a connection that carries an identity (\<^verbatim>\<open>socket.userId\<close> is truthy) the
  payload's \<^verbatim>\<open>from\<close> has no effect at all on what the event does, and the persisted
  sender is the connection's user.
\<close>

theorem authenticated_send_ignores_payload_from:
  assumes "truthy (userId s)"
  shows "on_sendMessage C e st s (p\<lparr>p_from := f\<rparr>) = on_sendMessage C e st s p
       \<and> (castField C (userId s) = Some u \<and> castField C (p_to p) = Some t \<and> db_ok e \<longrightarrow>
            db (state (on_sendMessage C e st s p))
              = db st @ [\<lparr>mid = new_id e, sender = u, receiver = t,
                          msg_text = p_text p, media_url = p_media_url p, createdAt = now e\<rparr>])"
proof -
  have j: "\<And>x. js_or (userId s) x = userId s"
    using assms by (simp add: js_or_def)
  have "on_sendMessage C e st s (p\<lparr>p_from := f\<rparr>) = on_sendMessage C e st s p"
    by (simp add: on_sendMessage_def j split: option.split)
  moreover have "castField C (userId s) = Some u \<and> castField C (p_to p) = Some t \<and> db_ok e \<longrightarrow>
            db (state (on_sendMessage C e st s p))
              = db st @ [\<lparr>mid = new_id e, sender = u, receiver = t,
                          msg_text = p_text p, media_url = p_media_url p, createdAt = now e\<rparr>]"
    by (simp add: on_sendMessage_def new_Message_def j)
  ultimately show ?thesis by blast
qed

theorem authenticated_send_ignores_payload_from_witness:
  "truthy (userId alice_socket) \<and> db_ok env0
   \<and> on_sendMessage C0 env0 st1 alice_socket
        \<lparr>p_from = Some carol, p_to = Some bob, p_text = Some ''hello'', p_media_url = None\<rparr>
     = on_sendMessage C0 env0 st1 alice_socket
        \<lparr>p_from = None, p_to = Some bob, p_text = Some ''hello'', p_media_url = None\<rparr>
   \<and> db (state (on_sendMessage C0 env0 st1 alice_socket
        \<lparr>p_from = None, p_to = Some bob, p_text = Some ''hello'', p_media_url = None\<rparr>))
     = [sent]"
proof -
  have a: "truthy (userId alice_socket)" by (simp add: alice_socket_def names_distinct)
  have e: "db_ok env0" by (simp add: env0_def)
  have c: "castField C0 (userId alice_socket) = Some (Some alice)"
    "castField C0 (Some bob) = Some (Some bob)"
    by (simp_all add: castField_def alice_socket_def C0_names)
  show ?thesis
    using authenticated_send_ignores_payload_from [OF a, where C = C0 and e = env0 and st = st1
        and f = "Some carol" and u = "Some alice" and t = "Some bob"
        and p = "\<lparr>p_from = None, p_to = Some bob, p_text = Some ''hello'', p_media_url = None\<rparr>"]
      a e c
    by (simp add: sent_def st1_eq)
qed

subsection \<open>Submitting over HTTP\<close>

lemma post_messages_ok:
  assumes "authMiddleware V header = Inr u" and "C u = Some a"
    and "castField C (receiverId b) = Some r" and "db_ok e"
  shows "post_messages V C e st header b =
    \<lparr>outcome = Responded 200 (MessageBody \<lparr>mid = new_id e, sender = Some a,
        receiver = r, msg_text = body_text b, media_url = body_media_url b,
        createdAt = now e\<rparr>),
     state = st\<lparr>db := db st @ [\<lparr>mid = new_id e, sender = Some a,
        receiver = r, msg_text = body_text b, media_url = body_media_url b,
        createdAt = now e\<rparr>]\<rparr>,
     pushed = emit_to (js_String (receiverId b)) \<lparr>mid = new_id e, sender = Some u,
        receiver = receiverId b, msg_text = body_text b, media_url = body_media_url b,
        createdAt = now e\<rparr> (sockets st)\<rparr>"
  using assms by (simp add: post_messages_def new_Message_def castField_def)

lemma post_messages_failed:
  assumes "authMiddleware V header = Inr u" and "\<not> db_ok e"
  shows "post_messages V C e st header b = \<lparr>outcome = Rejected, state = st, pushed = []\<rparr>"
  using assms by (simp add: post_messages_def split: option.splits)

lemma post_messages_unauthenticated:
  assumes "authMiddleware V header = Inl r"
  shows "post_messages V C e st header b = \<lparr>outcome = r, state = st, pushed = []\<rparr>"
  using assms by (simp add: post_messages_def)

lemma post_messages_outcome:
  assumes "authMiddleware V header = Inr u"
  shows "outcome (post_messages V C e st header b) = Rejected
       \<or> (\<exists>m. outcome (post_messages V C e st header b) = Responded 200 (MessageBody m))"
  using assms by (simp add: post_messages_def split: option.splits)

lemma authMiddleware_Inl:
  assumes "authMiddleware V header = Inl r"
  shows "\<exists>x. r = Responded 401 (ErrorBody x)"
  using assms by (auto simp: authMiddleware_def split: if_splits list.splits option.splits)

lemma sessionsFor_list:
  "sessionsFor st u = set (map sid (filter (\<lambda>s. userId s = Some u \<and> u \<noteq> []) (sockets st)))"
  by (auto simp: sessionsFor_def)

text \<open>The route pushes to the sessions registered under the receiver as written only.\<close>

lemma post_messages_fanout:
  assumes "reachable V st" and "authMiddleware V header = Inr u" and "C u = Some a"
    and "castField C (receiverId b) = Some r" and "db_ok e"
  shows "fst ` set (pushed (post_messages V C e st header b))
       = sessionsFor st (js_String (receiverId b))"
  by (simp add: post_messages_ok [OF assms(2,3,4,5)] emit_to_sessions [OF assms(1)])

text \<open>
  C1: a successful send is pushed to all live sessions of the receiver and of the sender,
  on either transport. The \<^verbatim>\<open>sendMessage\<close> event does so (\<open>on_sendMessage_fanout\<close>);
  \<^verbatim>\<open>POST /messages\<close> does not: with alice connected as \<open>c1\<close> and bob as \<open>c2\<close>, alice's
  submit is persisted and answered 200, and the only push goes to \<open>c2\<close>, while the same
  message sent as an event from \<open>c1\<close> is pushed to \<open>c2\<close> and \<open>c1\<close>.
\<close>

theorem post_messages_skips_sender_sessions:
  "sessionsFor st1 alice = {''c1''} \<and> sessionsFor st1 bob = {''c2''}
   \<and> post_messages V0 C0 env0 st1 (bearer alice) hello_bob
       = \<lparr>outcome = Responded 200 (MessageBody sent), state = st1\<lparr>db := [sent]\<rparr>,
          pushed = [(''c2'', sent)]\<rparr>
   \<and> on_sendMessage C0 env0 st1 alice_socket
        \<lparr>p_from = None, p_to = Some bob, p_text = Some ''hello'', p_media_url = None\<rparr>
       = \<lparr>outcome = Settled, state = st1\<lparr>db := [sent]\<rparr>,
          pushed = [(''c2'', sent), (''c1'', sent)]\<rparr>"
proof -
  have e: "db_ok env0" by (simp add: env0_def)
  have rb: "castField C0 (receiverId hello_bob) = Some (Some bob)"
    by (simp add: castField_def hello_bob_def C0_names)
  have "sessionsFor st1 alice = {''c1''}" "sessionsFor st1 bob = {''c2''}"
    by (simp_all add: sessionsFor_list st1_eq names_distinct)
  moreover have "post_messages V0 C0 env0 st1 (bearer alice) hello_bob
       = \<lparr>outcome = Responded 200 (MessageBody sent), state = st1\<lparr>db := [sent]\<rparr>,
          pushed = [(''c2'', sent)]\<rparr>"
    by (subst post_messages_ok [OF auth_alice C0_names(1) rb e])
      (simp add: hello_bob_def sent_def st1_eq emit_to_def names_distinct)
  moreover have "on_sendMessage C0 env0 st1 alice_socket
        \<lparr>p_from = None, p_to = Some bob, p_text = Some ''hello'', p_media_url = None\<rparr>
       = \<lparr>outcome = Settled, state = st1\<lparr>db := [sent]\<rparr>,
          pushed = [(''c2'', sent), (''c1'', sent)]\<rparr>"
    by (simp add: on_sendMessage_ok [where f = "Some alice" and t = "Some bob", OF _ _ e]
        castField_def C0_names alice_socket_def sent_def st1_eq emit_to_def js_or_def
        names_distinct)
  ultimately show ?thesis by blast
qed

text \<open>
  C3: when the save fails, no record is created and nothing is pushed, and the submit
  caller receives an error status. On both transports the store and the pushes are as
  claimed (\<open>post_messages_failed\<close>, \<open>on_sendMessage_failed\<close>), but the route has no
  \<^verbatim>\<open>try\<close>/\<^verbatim>\<open>catch\<close>: the rejected \<^verbatim>\<open>await msg.save()\<close> ends the handler before it
  writes any response.
\<close>

theorem post_messages_save_failure_unanswered:
  "post_messages V0 C0 (env0\<lparr>db_ok := False\<rparr>) st1 (bearer alice) hello_bob
     = \<lparr>outcome = Rejected, state = st1, pushed = []\<rparr>"
  by (simp add: post_messages_failed [OF auth_alice])

text \<open>
  C7 as stated fails: a submit whose body has no field at all is persisted and answered
  200.
\<close>

theorem post_messages_missing_fields_counterexample:
  "post_messages V0 C0 env0 st0 (bearer alice)
       \<lparr>receiverId = None, body_text = None, body_media_url = None\<rparr>
     = \<lparr>outcome = Responded 200 (MessageBody \<lparr>mid = new_id env0, sender = Some alice,
            receiver = None, msg_text = None, media_url = None, createdAt = now env0\<rparr>),
        state = st0\<lparr>db := [m1, m2, m3, \<lparr>mid = new_id env0, sender = Some alice,
            receiver = None, msg_text = None, media_url = None, createdAt = now env0\<rparr>]\<rparr>,
        pushed = []\<rparr>"
proof -
  have e: "db_ok env0" by (simp add: env0_def)
  have r: "castField C0 (receiverId \<lparr>receiverId = None, body_text = None, body_media_url = None\<rparr>)
      = Some None"
    by (simp add: castField_def)
  show ?thesis
    by (simp add: post_messages_ok [OF auth_alice C0_names(1) r e] st0_def emit_to_def)
qed

text \<open>
  C7, amended: the route validates no field. With a verified credential and a successful
  save (the identifiers present cast to \<^verbatim>\<open>ObjectId\<close>s and the store accepts the write),
  the message is persisted with exactly the fields the body has and answered 200 with the
  record; an absent receiver is no cast failure and stays absent. The only error response
  the route writes is the 401 of the credential check, and then the store is unchanged
  and nothing is pushed.
\<close>

theorem post_messages_validates_nothing:
  "(authMiddleware V header = Inr u \<and> C u = Some a \<and> castField C (receiverId b) = Some r
      \<and> db_ok e \<longrightarrow>
      outcome (post_messages V C e st header b)
        = Responded 200 (MessageBody \<lparr>mid = new_id e, sender = Some a, receiver = r,
            msg_text = body_text b, media_url = body_media_url b, createdAt = now e\<rparr>)
    \<and> db (state (post_messages V C e st header b))
        = db st @ [\<lparr>mid = new_id e, sender = Some a, receiver = r,
            msg_text = body_text b, media_url = body_media_url b, createdAt = now e\<rparr>])
   \<and> (receiverId b = None \<longrightarrow> castField C (receiverId b) = Some None)
   \<and> (outcome (post_messages V C e st header b) = Responded code (ErrorBody x) \<longrightarrow>
      code = 401 \<and> authMiddleware V header = Inl (Responded 401 (ErrorBody x))
    \<and> state (post_messages V C e st header b) = st
    \<and> pushed (post_messages V C e st header b) = [])"
proof -
  have "outcome (post_messages V C e st header b) = Responded code (ErrorBody x) \<longrightarrow>
      code = 401 \<and> authMiddleware V header = Inl (Responded 401 (ErrorBody x))
    \<and> state (post_messages V C e st header b) = st
    \<and> pushed (post_messages V C e st header b) = []"
  proof (cases "authMiddleware V header")
    case (Inl r)
    then show ?thesis
      using authMiddleware_Inl [OF Inl] by (auto simp: post_messages_unauthenticated)
  next
    case (Inr u')
    then show ?thesis
      using post_messages_outcome [OF Inr, of C e st b] by auto
  qed
  moreover have "authMiddleware V header = Inr u \<and> C u = Some a
      \<and> castField C (receiverId b) = Some r \<and> db_ok e \<longrightarrow>
      outcome (post_messages V C e st header b)
        = Responded 200 (MessageBody \<lparr>mid = new_id e, sender = Some a, receiver = r,
            msg_text = body_text b, media_url = body_media_url b, createdAt = now e\<rparr>)
    \<and> db (state (post_messages V C e st header b))
        = db st @ [\<lparr>mid = new_id e, sender = Some a, receiver = r,
            msg_text = body_text b, media_url = body_media_url b, createdAt = now e\<rparr>]"
    by (simp add: post_messages_def new_Message_def castField_def)
  moreover have "receiverId b = None \<longrightarrow> castField C (receiverId b) = Some None"
    by (simp add: castField_def)
  ultimately show ?thesis by blast
qed

theorem post_messages_validates_nothing_witness:
  "authMiddleware V0 (bearer alice) = Inr alice \<and> C0 alice = Some alice \<and> db_ok env0
   \<and> db (state (post_messages V0 C0 env0 st0 (bearer alice)
        \<lparr>receiverId = None, body_text = Some ''hello'', body_media_url = None\<rparr>))
     = [m1, m2, m3, sent\<lparr>receiver := None\<rparr>]
   \<and> outcome (post_messages V0 C0 env0 st0 (Some ''Bearer'') hello_bob)
     = Responded 401 (ErrorBody ''Invalid auth header'')
   \<and> state (post_messages V0 C0 env0 st0 (Some ''Bearer'') hello_bob) = st0"
proof -
  have e: "db_ok env0" by (simp add: env0_def)
  have o: "outcome (post_messages V0 C0 env0 st0 (Some ''Bearer'') hello_bob)
     = Responded 401 (ErrorBody ''Invalid auth header'')"
    by (simp add: post_messages_def authMiddleware_def)
  note T1 = post_messages_validates_nothing [of V0 "bearer alice" alice C0 alice
        "\<lparr>receiverId = None, body_text = Some ''hello'', body_media_url = None\<rparr>" None env0 st0
        0 "[]"]
  note T2 = post_messages_validates_nothing [of V0 "Some ''Bearer''" alice C0 alice hello_bob
        None env0 st0 401 "''Invalid auth header''"]
  have d: "db (state (post_messages V0 C0 env0 st0 (bearer alice)
        \<lparr>receiverId = None, body_text = Some ''hello'', body_media_url = None\<rparr>))
     = db st0 @ [\<lparr>mid = new_id env0, sender = Some alice, receiver = None,
            msg_text = Some ''hello'', media_url = None, createdAt = now env0\<rparr>]"
    using T1 auth_alice C0_names(1) e by (simp add: castField_def)
  have s: "state (post_messages V0 C0 env0 st0 (Some ''Bearer'') hello_bob) = st0"
    using T2 o by simp
  show ?thesis
    using d s o auth_alice C0_names(1) e by (simp add: st0_def sent_def)
qed

subsection \<open>Sends without live sessions\<close>

lemma insort_key_snoc:
  assumes "f a \<le> f x"
  shows "insort_key f a (ys @ [x]) = insort_key f a ys @ [x]"
  using assms by (induction ys) simp_all

lemma sort_key_snoc:
  assumes "\<forall>y\<in>set xs. f y \<le> f x"
  shows "sort_key f (xs @ [x]) = sort_key f xs @ [x]"
  using assms
proof (induction xs)
  case Nil
  then show ?case by simp
next
  case (Cons a xs)
  then have "f a \<le> f x" and "sort_key f (xs @ [x]) = sort_key f xs @ [x]" by simp_all
  then show ?case by (simp add: insort_key_snoc)
qed

lemma find_messages_length_less:
  "length (find_messages ms a b) < 1000 \<longleftrightarrow> length (filter (matches a b) ms) < 1000"
  by (simp add: find_messages_def min_def)

lemma find_messages_snoc:
  assumes "length (find_messages ms a b) < 1000" and "matches a b m"
  shows "m \<in> set (find_messages (ms @ [m]) a b)"
proof -
  have "length (sort_key createdAt (filter (matches a b) (ms @ [m]))) \<le> 1000"
    using assms by (simp add: find_messages_length_less)
  then have "find_messages (ms @ [m]) a b = sort_key createdAt (filter (matches a b) (ms @ [m]))"
    by (simp add: find_messages_def)
  then show ?thesis using assms(2) by simp
qed

lemma length_olds: "length (olds n) = n"
  by (simp add: olds_def)

lemma olds_sorted: "sorted (map createdAt (olds n))"
proof -
  have "sorted_wrt (\<lambda>i j. createdAt (old i) \<le> createdAt (old j)) [0..<n]"
    by (rule sorted_wrt_mono_rel [OF _ sorted_upt]) (simp add: old_def)
  then show ?thesis by (simp add: olds_def sorted_map comp_def sorted_wrt_map)
qed

lemma olds_matches: "filter (matches alice bob) (olds n) = olds n"
  by (rule filter_True) (auto simp: matches_def old_def olds_def)

lemma olds_older:
  assumes "y \<in> set (olds 1000)"
  shows "createdAt y < createdAt sent"
proof -
  obtain i where "i < 1000" "y = old i"
    using assms by (auto simp: olds_def)
  then show ?thesis by (simp add: old_def sent_def env0_def)
qed

lemma find_messages_big: "find_messages (olds 1000 @ [sent]) alice bob = olds 1000"
proof -
  have m: "matches alice bob sent" by (simp add: matches_def sent_def)
  have k: "\<forall>y\<in>set (olds 1000). createdAt y \<le> createdAt sent"
    using olds_older by (auto intro: less_imp_le)
  have "sort_key createdAt (olds 1000 @ [sent]) = sort_key createdAt (olds 1000) @ [sent]"
    using k by (rule sort_key_snoc)
  also have "sort_key createdAt (olds 1000) = olds 1000"
    by (rule sort_key_id_if_sorted) (rule olds_sorted)
  finally show ?thesis
    by (simp add: find_messages_def olds_matches m length_olds)
qed

text \<open>
  C8 as stated fails: with 1000 messages of the pair already stored, a send without any
  live session succeeds and is persisted, but the history fetch that follows returns the
  1000 older messages and not the new one.
\<close>

theorem send_beyond_limit_counterexample:
  "sessionsFor big alice = {} \<and> sessionsFor big bob = {}
   \<and> post_messages V0 C0 env0 big (bearer alice) hello_bob
       = \<lparr>outcome = Responded 200 (MessageBody sent), state = big\<lparr>db := db big @ [sent]\<rparr>,
          pushed = []\<rparr>
   \<and> get_messages V0 C0 env0 (big\<lparr>db := db big @ [sent]\<rparr>) (bearer alice) bob
       = \<lparr>outcome = Responded 200 (MessagesBody (db big)), state = big\<lparr>db := db big @ [sent]\<rparr>,
          pushed = []\<rparr>
   \<and> sent \<notin> set (db big)"
proof -
  have e: "db_ok env0" by (simp add: env0_def)
  have rb: "castField C0 (receiverId hello_bob) = Some (Some bob)"
    by (simp add: castField_def hello_bob_def C0_names)
  have "sessionsFor big alice = {}" "sessionsFor big bob = {}"
    by (simp_all add: sessionsFor_def big_def)
  moreover have "post_messages V0 C0 env0 big (bearer alice) hello_bob
       = \<lparr>outcome = Responded 200 (MessageBody sent), state = big\<lparr>db := db big @ [sent]\<rparr>,
          pushed = []\<rparr>"
    by (subst post_messages_ok [OF auth_alice C0_names(1) rb e])
      (simp add: hello_bob_def sent_def emit_to_def big_def)
  moreover have "get_messages V0 C0 env0 (big\<lparr>db := db big @ [sent]\<rparr>) (bearer alice) bob
       = \<lparr>outcome = Responded 200 (MessagesBody (db big)), state = big\<lparr>db := db big @ [sent]\<rparr>,
          pushed = []\<rparr>"
    by (simp add: get_messages_ok [OF auth_alice C0_names(1) C0_names(2) e] big_def
        find_messages_big)
  moreover have "sent \<notin> set (db big)"
    using olds_older [of sent] by (auto simp: big_def)
  ultimately show ?thesis by blast
qed

text \<open>
  C8, amended: a send where neither the sender nor the receiver has a live session (none
  is registered under the sender's \<^verbatim>\<open>ObjectId\<close>, under the receiver's, or under the
  receiver identifier as written) succeeds when the save does, pushes nothing and appends
  the message to the store, on both transports; a following history fetch over the pair
  returns it provided the pair had fewer than 1000 stored messages before the send.
\<close>

theorem send_without_sessions_is_stored:
  assumes "reachable V st" and "db_ok e"
    and "sessionsFor st a = {}" and "sessionsFor st b = {}"
    and "sessionsFor st rb = {}" and "C rb = Some b"
  shows "(authMiddleware V header = Inr ua \<and> C ua = Some a \<and> receiverId body = Some rb \<longrightarrow>
            outcome (post_messages V C e st header body)
              = Responded 200 (MessageBody \<lparr>mid = new_id e, sender = Some a, receiver = Some b,
                  msg_text = body_text body, media_url = body_media_url body, createdAt = now e\<rparr>)
          \<and> pushed (post_messages V C e st header body) = []
          \<and> db (state (post_messages V C e st header body))
              = db st @ [\<lparr>mid = new_id e, sender = Some a, receiver = Some b,
                  msg_text = body_text body, media_url = body_media_url body, createdAt = now e\<rparr>]
          \<and> (length (find_messages (db st) a b) < 1000 \<longrightarrow>
               \<lparr>mid = new_id e, sender = Some a, receiver = Some b,
                  msg_text = body_text body, media_url = body_media_url body, createdAt = now e\<rparr>
               \<in> set (find_messages (db (state (post_messages V C e st header body))) a b)))
       \<and> (js_or (userId s) (p_from p) = Some ra \<and> C ra = Some a \<and> p_to p = Some rb \<longrightarrow>
            outcome (on_sendMessage C e st s p) = Settled
          \<and> pushed (on_sendMessage C e st s p) = []
          \<and> db (state (on_sendMessage C e st s p))
              = db st @ [\<lparr>mid = new_id e, sender = Some a, receiver = Some b,
                  msg_text = p_text p, media_url = p_media_url p, createdAt = now e\<rparr>]
          \<and> (length (find_messages (db st) a b) < 1000 \<longrightarrow>
               \<lparr>mid = new_id e, sender = Some a, receiver = Some b,
                  msg_text = p_text p, media_url = p_media_url p, createdAt = now e\<rparr>
               \<in> set (find_messages (db (state (on_sendMessage C e st s p))) a b)))"
proof -
  have na: "\<And>m. emit_to a m (sockets st) = []" and nr: "\<And>m. emit_to rb m (sockets st) = []"
    using assms(3,5) emit_to_Nil_iff [OF assms(1)] by simp_all
  have mt: "\<And>t u. matches a b \<lparr>mid = new_id e, sender = Some a, receiver = Some b,
                  msg_text = t, media_url = u, createdAt = now e\<rparr>"
    by (simp add: matches_def)
  have cb: "castField C (Some rb) = Some (Some b)"
    using assms(6) by (simp add: castField_def)
  have post: "authMiddleware V header = Inr ua \<and> C ua = Some a \<and> receiverId body = Some rb \<longrightarrow>
            outcome (post_messages V C e st header body)
              = Responded 200 (MessageBody \<lparr>mid = new_id e, sender = Some a, receiver = Some b,
                  msg_text = body_text body, media_url = body_media_url body, createdAt = now e\<rparr>)
          \<and> pushed (post_messages V C e st header body) = []
          \<and> db (state (post_messages V C e st header body))
              = db st @ [\<lparr>mid = new_id e, sender = Some a, receiver = Some b,
                  msg_text = body_text body, media_url = body_media_url body, createdAt = now e\<rparr>]
          \<and> (length (find_messages (db st) a b) < 1000 \<longrightarrow>
               \<lparr>mid = new_id e, sender = Some a, receiver = Some b,
                  msg_text = body_text body, media_url = body_media_url body, createdAt = now e\<rparr>
               \<in> set (find_messages (db (state (post_messages V C e st header body))) a b))"
  proof (intro impI, elim conjE)
    assume h: "authMiddleware V header = Inr ua" and c: "C ua = Some a"
      and r: "receiverId body = Some rb"
    have cr: "castField C (receiverId body) = Some (Some b)"
      using cb r by simp
    show "outcome (post_messages V C e st header body)
              = Responded 200 (MessageBody \<lparr>mid = new_id e, sender = Some a, receiver = Some b,
                  msg_text = body_text body, media_url = body_media_url body, createdAt = now e\<rparr>)
          \<and> pushed (post_messages V C e st header body) = []
          \<and> db (state (post_messages V C e st header body))
              = db st @ [\<lparr>mid = new_id e, sender = Some a, receiver = Some b,
                  msg_text = body_text body, media_url = body_media_url body, createdAt = now e\<rparr>]
          \<and> (length (find_messages (db st) a b) < 1000 \<longrightarrow>
               \<lparr>mid = new_id e, sender = Some a, receiver = Some b,
                  msg_text = body_text body, media_url = body_media_url body, createdAt = now e\<rparr>
               \<in> set (find_messages (db (state (post_messages V C e st header body))) a b))"
      by (simp add: post_messages_ok [OF h c cr assms(2)] r nr find_messages_snoc [OF _ mt])
  qed
  have sock: "js_or (userId s) (p_from p) = Some ra \<and> C ra = Some a \<and> p_to p = Some rb \<longrightarrow>
            outcome (on_sendMessage C e st s p) = Settled
          \<and> pushed (on_sendMessage C e st s p) = []
          \<and> db (state (on_sendMessage C e st s p))
              = db st @ [\<lparr>mid = new_id e, sender = Some a, receiver = Some b,
                  msg_text = p_text p, media_url = p_media_url p, createdAt = now e\<rparr>]
          \<and> (length (find_messages (db st) a b) < 1000 \<longrightarrow>
               \<lparr>mid = new_id e, sender = Some a, receiver = Some b,
                  msg_text = p_text p, media_url = p_media_url p, createdAt = now e\<rparr>
               \<in> set (find_messages (db (state (on_sendMessage C e st s p))) a b))"
  proof (intro impI, elim conjE)
    assume j: "js_or (userId s) (p_from p) = Some ra" and c: "C ra = Some a"
      and r: "p_to p = Some rb"
    have cf: "castField C (js_or (userId s) (p_from p)) = Some (Some a)"
      using j c by (simp add: castField_def)
    have ct: "castField C (p_to p) = Some (Some b)"
      using cb r by simp
    show "outcome (on_sendMessage C e st s p) = Settled
          \<and> pushed (on_sendMessage C e st s p) = []
          \<and> db (state (on_sendMessage C e st s p))
              = db st @ [\<lparr>mid = new_id e, sender = Some a, receiver = Some b,
                  msg_text = p_text p, media_url = p_media_url p, createdAt = now e\<rparr>]
          \<and> (length (find_messages (db st) a b) < 1000 \<longrightarrow>
               \<lparr>mid = new_id e, sender = Some a, receiver = Some b,
                  msg_text = p_text p, media_url = p_media_url p, createdAt = now e\<rparr>
               \<in> set (find_messages (db (state (on_sendMessage C e st s p))) a b))"
      by (simp add: on_sendMessage_ok [OF cf ct assms(2)] r na nr find_messages_snoc [OF _ mt])
  qed
  from post sock show ?thesis by blast
qed

theorem send_without_sessions_is_stored_witness:
  "reachable V0 st0 \<and> db_ok env0 \<and> sessionsFor st0 alice = {} \<and> sessionsFor st0 bob = {}
   \<and> sessionsFor st0 bob_upper = {} \<and> C0 bob_upper = Some bob
   \<and> length (find_messages (db st0) alice bob) < 1000
   \<and> pushed (post_messages V0 C0 env0 st0 (bearer alice)
        \<lparr>receiverId = Some bob_upper, body_text = Some ''hello'', body_media_url = None\<rparr>) = []
   \<and> sent \<in> set (find_messages (db (state (post_messages V0 C0 env0 st0 (bearer alice)
        \<lparr>receiverId = Some bob_upper, body_text = Some ''hello'', body_media_url = None\<rparr>)))
        alice bob)
   \<and> pushed (on_sendMessage C0 env0 st0 anon_socket
        \<lparr>p_from = Some alice, p_to = Some bob_upper, p_text = Some ''hello'',
         p_media_url = None\<rparr>) = []
   \<and> sent \<in> set (find_messages (db (state (on_sendMessage C0 env0 st0 anon_socket
        \<lparr>p_from = Some alice, p_to = Some bob_upper, p_text = Some ''hello'',
         p_media_url = None\<rparr>))) alice bob)"
proof -
  let ?b = "\<lparr>receiverId = Some bob_upper, body_text = Some ''hello'', body_media_url = None\<rparr>"
  let ?p = "\<lparr>p_from = Some alice, p_to = Some bob_upper, p_text = Some ''hello'',
             p_media_url = None\<rparr>"
  have r: "reachable V0 st0" unfolding st0_def by (rule reachable.start)
  have e: "db_ok env0" by (simp add: env0_def)
  have a: "sessionsFor st0 alice = {}" and b: "sessionsFor st0 bob = {}"
    and u: "sessionsFor st0 bob_upper = {}"
    by (simp_all add: sessionsFor_def st0_def)
  have "find_messages (db st0) alice bob = [m2, m1]"
    by (simp add: find_messages_def matches_def st0_def m1_def m2_def m3_def names_distinct)
  then have l: "length (find_messages (db st0) alice bob) < 1000" by simp
  have j: "js_or (userId anon_socket) (p_from ?p) = Some alice \<and> C0 alice = Some alice
      \<and> p_to ?p = Some bob_upper"
    by (simp add: js_or_def anon_socket_def C0_names)
  have q: "authMiddleware V0 (bearer alice) = Inr alice \<and> C0 alice = Some alice
      \<and> receiverId ?b = Some bob_upper"
    by (simp add: auth_alice C0_names)
  note T = send_without_sessions_is_stored [where V = V0 and C = C0 and st = st0 and e = env0
        and a = alice and b = bob and rb = bob_upper and header = "bearer alice"
        and ua = alice and ra = alice and body = ?b and s = anon_socket and p = ?p,
        OF r e a b u C0_upper(2)]
  have post: "pushed (post_messages V0 C0 env0 st0 (bearer alice) ?b) = []
      \<and> \<lparr>mid = new_id env0, sender = Some alice, receiver = Some bob,
          msg_text = body_text ?b, media_url = body_media_url ?b, createdAt = now env0\<rparr>
        \<in> set (find_messages (db (state (post_messages V0 C0 env0 st0 (bearer alice) ?b)))
            alice bob)"
    using T q l by blast
  have sock: "pushed (on_sendMessage C0 env0 st0 anon_socket ?p) = []
      \<and> \<lparr>mid = new_id env0, sender = Some alice, receiver = Some bob,
          msg_text = p_text ?p, media_url = p_media_url ?p, createdAt = now env0\<rparr>
        \<in> set (find_messages (db (state (on_sendMessage C0 env0 st0 anon_socket ?p))) alice bob)"
    using T j l by blast
  show ?thesis
    using post sock r e a b u l C0_upper(2) by (simp add: sent_def)
qed

end
